theory Spec2Isabelle
  imports Complex_Main
begin

section \<open>Strings as the source uses them\<close>

text \<open>
  A JavaScript string is a sequence of UTF-16 code units.  The texts (resume, job title,
  description, requirements) are modelled as \<^typ>\<open>string\<close>, a list of 8-bit characters read as
  the code units U+0000 .. U+00FF, so that \<^const>\<open>length\<close> is the \<^verbatim>\<open>.length\<close> of the source.
  All vocabularies of the source are ASCII, and of a text the code only asks which terms
  occur in it.  The profile reference, whose length is observed, has a larger alphabet; it
  is introduced with the profile completeness scorer.
\<close>

definition code :: "char \<Rightarrow> nat" where
  "code c = of_char c"

text \<open>\<^verbatim>\<open>String.prototype.toLowerCase\<close> on one code unit: A-Z and the capital letters of Latin-1.\<close>

definition toLowerCase_char :: "char \<Rightarrow> char" where
  "toLowerCase_char c =
     (let n = code c in
      if (65 \<le> n \<and> n \<le> 90) \<or> (192 \<le> n \<and> n \<le> 222 \<and> n \<noteq> 215)
      then char_of (n + 32) else c)"

definition toLowerCase :: "string \<Rightarrow> string" where
  "toLowerCase s = map toLowerCase_char s"

text \<open>
  \<^verbatim>\<open>s.startsWith(t)\<close> and \<^verbatim>\<open>s.includes(t)\<close> (\<open>str_includes\<close>): \<open>t\<close> is looked for at
  every index of \<open>s\<close>.  They compare code units, whatever the alphabet.
\<close>

fun startsWith :: "'a list \<Rightarrow> 'a list \<Rightarrow> bool" where
  "startsWith s [] = True"
| "startsWith [] (d # ds) = False"
| "startsWith (c # cs) (d # ds) = (c = d \<and> startsWith cs ds)"

fun str_includes :: "'a list \<Rightarrow> 'a list \<Rightarrow> bool" where
  "str_includes [] t = startsWith [] t"
| "str_includes (c # cs) t = (startsWith (c # cs) t \<or> str_includes cs t)"

text \<open>White space in the sense of \<^verbatim>\<open>trim\<close> and of the regular expression class \<^verbatim>\<open>\s\<close>,
  among the code units below U+0100: TAB, LF, VT, FF, CR, SPACE and NBSP.\<close>

definition isWhiteSpace :: "char \<Rightarrow> bool" where
  "isWhiteSpace c = (let n = code c in (9 \<le> n \<and> n \<le> 13) \<or> n = 32 \<or> n = 160)"

text \<open>\<^verbatim>\<open>xs.join(sep)\<close>.\<close>

fun join :: "string \<Rightarrow> string list \<Rightarrow> string" where
  "join sep [] = []"
| "join sep [x] = x"
| "join sep (x # y # ys) = x @ sep @ join sep (y # ys)"

text \<open>\<^verbatim>\<open>s.split(' ')\<close> for a separator of one character: the result is never empty.\<close>

fun split :: "char \<Rightarrow> string \<Rightarrow> string list" where
  "split sep [] = [[]]"
| "split sep (c # cs) =
     (if c = sep then [] # split sep cs
      else (case split sep cs of w # ws \<Rightarrow> (c # w) # ws | [] \<Rightarrow> [[c]]))"

text \<open>\<^verbatim>\<open>xs.slice(0, n)\<close> is \<^term>\<open>take n xs\<close>; \<^verbatim>\<open>xs.slice(-n)\<close> keeps the last \<open>n\<close> elements.\<close>

definition slice_last :: "nat \<Rightarrow> 'a list \<Rightarrow> 'a list" where
  "slice_last n xs = drop (length xs - n) xs"

text \<open>\<^verbatim>\<open>[...new Set(xs)]\<close>: the first occurrence of every element, in insertion order.\<close>

fun uniq :: "'a list \<Rightarrow> 'a list" where
  "uniq [] = []"
| "uniq (x # xs) = x # uniq (filter (\<lambda>y. y \<noteq> x) xs)"

text \<open>Decimal numerals, as a template literal prints a length.\<close>

fun show_nat :: "nat \<Rightarrow> string" where
  "show_nat n =
     (if n < 10 then [char_of (48 + n)]
      else show_nat (n div 10) @ [char_of (48 + n mod 10)])"

section \<open>Vocabulary tables\<close>

definition TECH_SKILLS :: "string list" where
  "TECH_SKILLS =
    [''javascript'', ''typescript'', ''python'', ''java'', ''c++'', ''c#'', ''go'', ''rust'',
     ''ruby'', ''php'', ''swift'', ''kotlin'',
     ''react'', ''angular'', ''vue'', ''svelte'', ''next.js'', ''node.js'', ''express'',
     ''django'', ''flask'', ''fastapi'', ''spring'',
     ''aws'', ''azure'', ''gcp'', ''docker'', ''kubernetes'', ''terraform'', ''jenkins'',
     ''ci/cd'', ''devops'',
     ''sql'', ''postgresql'', ''mysql'', ''mongodb'', ''redis'', ''elasticsearch'', ''graphql'',
     ''rest api'',
     ''machine learning'', ''deep learning'', ''tensorflow'', ''pytorch'', ''scikit-learn'',
     ''nlp'', ''computer vision'',
     ''git'', ''agile'', ''scrum'', ''jira'', ''confluence'', ''figma'', ''sketch'',
     ''html'', ''css'', ''sass'', ''tailwind'', ''bootstrap'', ''webpack'', ''vite'',
     ''testing'', ''jest'', ''cypress'', ''selenium'', ''unit testing'', ''integration testing'',
     ''microservices'', ''api design'', ''system design'', ''distributed systems'',
     ''scalability'',
     ''data analysis'', ''data visualization'', ''tableau'', ''power bi'', ''excel'', ''pandas'',
     ''numpy'',
     ''leadership'', ''management'', ''communication'', ''problem-solving'', ''teamwork'',
     ''collaboration'']"

definition ACTION_VERBS :: "string list" where
  "ACTION_VERBS =
    [''achieved'', ''built'', ''created'', ''delivered'', ''developed'', ''designed'',
     ''established'',
     ''generated'', ''implemented'', ''improved'', ''increased'', ''launched'', ''led'',
     ''managed'',
     ''optimized'', ''reduced'', ''resolved'', ''scaled'', ''spearheaded'', ''streamlined'',
     ''transformed'']"

section \<open>Regular expressions of the metrics patterns\<close>

text \<open>
  The fragment of JavaScript regular expressions that \<^verbatim>\<open>METRICS_PATTERNS\<close> is written in:
  character classes, literal words, sequence, alternation, \<^verbatim>\<open>?\<close>, and the greedy \<^verbatim>\<open>*\<close> and
  \<^verbatim>\<open>+\<close> over a character class.
\<close>

datatype cls = Digit | Whitespace | Lit char | Union cls cls

datatype rx = Cls cls | Word string | Seq rx rx | Alt rx rx | Opt rx | Star cls | Plus cls

definition isDigit :: "char \<Rightarrow> bool" where
  "isDigit c = (let n = code c in 48 \<le> n \<and> n \<le> 57)"

text \<open>Two code units are the same under the \<^verbatim>\<open>i\<close> flag when they are the same letter.\<close>

definition same_char :: "bool \<Rightarrow> char \<Rightarrow> char \<Rightarrow> bool" where
  "same_char ignoreCase a c =
     (if ignoreCase then toLowerCase_char a = toLowerCase_char c else a = c)"

fun in_cls :: "bool \<Rightarrow> cls \<Rightarrow> char \<Rightarrow> bool" where
  "in_cls i Digit c = isDigit c"
| "in_cls i Whitespace c = isWhiteSpace c"
| "in_cls i (Lit a) c = same_char i a c"
| "in_cls i (Union k l) c = (in_cls i k c \<or> in_cls i l c)"

fun word_at :: "bool \<Rightarrow> string \<Rightarrow> string \<Rightarrow> string option" where
  "word_at i [] s = Some s"
| "word_at i (a # as) [] = None"
| "word_at i (a # as) (c # cs) = (if same_char i a c then word_at i as cs else None)"

text \<open>
  A backtracking matcher: \<open>rmatch i r s\<close> lists what is left of \<open>s\<close> after every way of
  matching \<open>r\<close> at its start, in the order in which the backtracking engine tries them
  (greedy: the longest repetition first).  The engine takes the first way that lets the
  rest of the pattern match.
\<close>

fun star :: "bool \<Rightarrow> cls \<Rightarrow> string \<Rightarrow> string list" where
  "star i k [] = [[]]"
| "star i k (c # cs) = (if in_cls i k c then star i k cs @ [c # cs] else [c # cs])"

fun rmatch :: "bool \<Rightarrow> rx \<Rightarrow> string \<Rightarrow> string list" where
  "rmatch i (Cls k) s = (case s of [] \<Rightarrow> [] | c # cs \<Rightarrow> if in_cls i k c then [cs] else [])"
| "rmatch i (Word w) s = (case word_at i w s of None \<Rightarrow> [] | Some rest \<Rightarrow> [rest])"
| "rmatch i (Seq a b) s = concat (map (rmatch i b) (rmatch i a s))"
| "rmatch i (Alt a b) s = rmatch i a s @ rmatch i b s"
| "rmatch i (Opt a) s = rmatch i a s @ [s]"
| "rmatch i (Star k) s = star i k s"
| "rmatch i (Plus k) s = (case s of [] \<Rightarrow> [] | c # cs \<Rightarrow> if in_cls i k c then star i k cs else [])"

text \<open>
  The scan of a pattern with the \<^verbatim>\<open>g\<close> flag: the leftmost match from the current index,
  then on from the end of that match (one further after an empty match).  \<open>skip\<close> counts
  the characters of the last match that are still to be passed.
\<close>

fun scan :: "bool \<Rightarrow> rx \<Rightarrow> nat \<Rightarrow> string \<Rightarrow> string list" where
  "scan i r skip [] = (if skip = 0 \<and> rmatch i r [] \<noteq> [] then [[]] else [])"
| "scan i r skip (c # cs) =
     (if 0 < skip then scan i r (skip - 1) cs
      else (case rmatch i r (c # cs) of
              [] \<Rightarrow> scan i r 0 cs
            | rest # _ \<Rightarrow>
                (let n = length (c # cs) - length rest
                 in take n (c # cs) # scan i r (n - 1) cs)))"

record pattern =
  regex :: rx
  ignoreCase :: bool

text \<open>\<^verbatim>\<open>text.match(pattern)\<close> for a global pattern: all matches, or \<^verbatim>\<open>null\<close> when there is none.\<close>

definition match :: "string \<Rightarrow> pattern \<Rightarrow> string list option" where
  "match text p =
     (case scan (ignoreCase p) (regex p) 0 text of [] \<Rightarrow> None | m # ms \<Rightarrow> Some (m # ms))"

definition counted :: "string list \<Rightarrow> rx" where
  "counted ws =
     Seq (Plus Digit) (Seq (Opt (Cls (Lit CHR ''+''))) (Seq (Star Whitespace)
       (foldr Alt (map Word (butlast ws)) (Word (last ws)))))"

definition METRICS_PATTERNS :: "pattern list" where
  "METRICS_PATTERNS =
    [\<lparr>regex = Seq (Plus Digit) (Cls (Lit CHR ''%'')), ignoreCase = False\<rparr>,
     \<lparr>regex = Seq (Cls (Lit CHR ''$'')) (Plus (Union Digit (Lit CHR '',''))), ignoreCase = False\<rparr>,
     \<lparr>regex = Seq (Plus Digit) (Cls (Lit CHR ''x'')), ignoreCase = False\<rparr>,
     \<lparr>regex = counted [''users'', ''customers'', ''clients'', ''employees'', ''team members''],
      ignoreCase = True\<rparr>,
     \<lparr>regex = counted [''years'', ''months''], ignoreCase = True\<rparr>,
     \<lparr>regex = counted [''projects'', ''applications'', ''systems'', ''features''],
      ignoreCase = True\<rparr>]"

section \<open>The text extractor\<close>

record ParsedResume =
  rawText :: string
  skills :: "string list"
  experience :: "string list"
  education :: "string list"
  certifications :: "string list"
  keywords_field :: "string list"
  metrics :: "string list"

definition experienceIndicators :: "string list" where
  "experienceIndicators =
     [''experience'', ''work history'', ''employment'', ''professional background'']"

definition educationKeywords :: "string list" where
  "educationKeywords =
     [''bachelor'', ''master'', ''phd'', ''degree'', ''university'', ''college'',
      ''certification'', ''certified'']"

definition certKeywords :: "string list" where
  "certKeywords =
     [''aws certified'', ''google certified'', ''microsoft certified'', ''pmp'',
      ''scrum master'', ''cissp'', ''cka'', ''ckad'']"

definition parseResumeText :: "string \<Rightarrow> ParsedResume" where
  "parseResumeText text =
     (let lowerText = toLowerCase text;
          skills = filter (\<lambda>skill. str_includes lowerText (toLowerCase skill)) TECH_SKILLS;
          keywords =
            skills @ filter (\<lambda>verb. str_includes lowerText (toLowerCase verb)) ACTION_VERBS;
          metrics =
            foldl (\<lambda>metrics pattern.
                     case match text pattern of
                       Some matches \<Rightarrow> metrics @ matches
                     | None \<Rightarrow> metrics)
                  [] METRICS_PATTERNS;
          experience =
            foldl (\<lambda>experience indicator.
                     if str_includes lowerText indicator then experience @ [indicator]
                     else experience)
                  [] experienceIndicators;
          education = filter (\<lambda>edu. str_includes lowerText edu) educationKeywords;
          certifications = filter (\<lambda>cert. str_includes lowerText cert) certKeywords
      in \<lparr>rawText = text, skills = skills, experience = experience, education = education,
          certifications = certifications, keywords_field = keywords, metrics = metrics\<rparr>)"


section \<open>Numbers\<close>

text \<open>
  A JavaScript number is an IEEE 754 binary64 value.  The model is the rational number it
  denotes; every operation rounds its exact result to the nearest binary64 value, ties to
  the even significand.  The exponent is left unbounded: the numbers of this program are
  quotients of array lengths and sums of a few of them with small constants, all far inside
  the normal range, and every division of the source is guarded by a test that the divisor
  is positive.
\<close>

fun ilog2 :: "nat \<Rightarrow> nat" where
  "ilog2 n = (if n < 2 then 0 else Suc (ilog2 (n div 2)))"

declare ilog2.simps [simp del]

text \<open>The binary exponent \<open>e\<close> of a positive number: \<open>2\<^sup>e \<le> x < 2\<^sup>e\<^sup>+\<^sup>1\<close>.\<close>

definition expo :: "rat \<Rightarrow> int" where
  "expo x =
     (if 1 \<le> x then int (ilog2 (nat \<lfloor>x\<rfloor>))
      else - int (ilog2 (nat \<lceil>1 / x\<rceil> - 1)) - 1)"

text \<open>Rounding to the nearest integer, ties to even.\<close>

definition rne :: "rat \<Rightarrow> int" where
  "rne x =
     (let f = \<lfloor>x\<rfloor>; d = x - of_int f in
      if d < 1 / 2 then f else if 1 / 2 < d then f + 1 else if even f then f else f + 1)"

text \<open>The unit in the last place of a significand of 53 bits.\<close>

definition ulp :: "rat \<Rightarrow> rat" where
  "ulp x = 2 powi (expo x - 52)"

definition fl_pos :: "rat \<Rightarrow> rat" where
  "fl_pos x = of_int (rne (x / ulp x)) * ulp x"

definition fl :: "rat \<Rightarrow> rat" where
  "fl x = (if x = 0 then 0 else if 0 < x then fl_pos x else - fl_pos (- x))"

definition fdiv :: "rat \<Rightarrow> rat \<Rightarrow> rat" where
  "fdiv a b = fl (a / b)"

definition fmul :: "rat \<Rightarrow> rat \<Rightarrow> rat" where
  "fmul a b = fl (a * b)"

definition fadd :: "rat \<Rightarrow> rat \<Rightarrow> rat" where
  "fadd a b = fl (a + b)"

text \<open>\<^verbatim>\<open>Math.round\<close>: the nearest integer, a tie going up.\<close>

definition Math_round :: "rat \<Rightarrow> int" where
  "Math_round x = \<lfloor>x + 1 / 2\<rfloor>"

section \<open>The match scorer\<close>

text \<open>
  \<^verbatim>\<open>resumeScore\<close> and \<^verbatim>\<open>keywordDensity\<close> hold results of \<^verbatim>\<open>Math.round\<close>: integers.
\<close>

record ResumeAnalysis =
  resumeScore :: int
  matchingKeywords :: "string list"
  missingKeywords :: "string list"
  matchingSkills :: "string list"
  missingSkills :: "string list"
  strengthsFound :: "string list"
  improvementAreas :: "string list"
  metricsSuggestions :: "string list"
  keywordDensity :: int
  overallFeedback :: string

definition jobTerms :: "string list" where
  "jobTerms =
    [''remote'', ''hybrid'', ''onsite'', ''full-time'', ''contract'',
     ''senior'', ''junior'', ''lead'', ''principal'', ''staff'', ''manager'',
     ''startup'', ''enterprise'', ''b2b'', ''b2c'', ''saas'',
     ''cross-functional'', ''stakeholder'', ''roadmap'', ''strategy'',
     ''analytics'', ''metrics'', ''kpi'', ''okr'', ''roi'']"

definition extractKeywordsFromText :: "string \<Rightarrow> string list" where
  "extractKeywordsFromText text =
     (let keywords = [];
          keywords =
            foldl (\<lambda>keywords skill.
                     if str_includes text (toLowerCase skill) then keywords @ [skill]
                     else keywords)
                  keywords TECH_SKILLS;
          keywords =
            foldl (\<lambda>keywords term.
                     if str_includes text (toLowerCase term) then keywords @ [term]
                     else keywords)
                  keywords jobTerms
      in uniq keywords)"

definition feedback_excellent :: string where
  "feedback_excellent = ''Excellent match! Your resume aligns very well with this position. Focus on tailoring your cover letter to stand out.''"

definition feedback_good :: string where
  "feedback_good = ''Good match with room for improvement. Consider highlighting the matching skills more prominently and addressing the missing keywords.''"

definition feedback_moderate :: string where
  "feedback_moderate = ''Moderate match. You may need to emphasize transferable skills and add more relevant keywords to strengthen your application.''"

definition feedback_tailoring :: string where
  "feedback_tailoring = ''This role may require significant resume tailoring. Focus on highlighting any relevant experience and consider gaining the missing skills.''"

definition analyzeResumeForJob ::
  "ParsedResume \<Rightarrow> string \<Rightarrow> string \<Rightarrow> string list \<Rightarrow> ResumeAnalysis" where
  \<open>analyzeResumeForJob resume jobTitle jobDescription jobRequirements =
     (let jobText =
            toLowerCase (jobTitle @ '' '' @ jobDescription @ '' '' @ join '' '' jobRequirements);
          resumeText = toLowerCase (rawText resume);
          jobSkills = filter (\<lambda>skill. str_includes jobText (toLowerCase skill)) TECH_SKILLS;
          matchingSkills =
            filter (\<lambda>skill. list_ex (\<lambda>js. toLowerCase js = toLowerCase skill) jobSkills)
                   (skills resume);
          missingSkills =
            filter (\<lambda>skill. \<not> list_ex (\<lambda>rs. toLowerCase rs = toLowerCase skill) (skills resume))
                   jobSkills;
          jobKeywords = extractKeywordsFromText jobText;
          resumeKeywords = extractKeywordsFromText resumeText;
          matchingKeywords =
            filter (\<lambda>kw. list_ex (\<lambda>jk. toLowerCase jk = toLowerCase kw) jobKeywords)
                   resumeKeywords;
          missingKeywords =
            take 8
              (filter (\<lambda>kw. \<not> list_ex (\<lambda>rk. toLowerCase rk = toLowerCase kw) resumeKeywords)
                      jobKeywords);
          skillMatchRatio =
            (if length jobSkills > 0
             then fdiv (of_nat (length matchingSkills)) (of_nat (length jobSkills))
             else 1 / 2);
          keywordMatchRatio =
            (if length jobKeywords > 0
             then fdiv (of_nat (length matchingKeywords)) (of_nat (length jobKeywords))
             else 1 / 2);
          hasMetrics = (length (metrics resume) > 0);
          hasActionVerbs = list_ex (\<lambda>verb. str_includes resumeText verb) ACTION_VERBS;
          resumeScore =
            Math_round
              (fadd (fadd (fadd (fadd (fmul skillMatchRatio 40)
                                      (fmul keywordMatchRatio 30))
                                (if hasMetrics then 15 else 0))
                          (if hasActionVerbs then 10 else 0))
                    (if length (certifications resume) > 0 then 5 else 0));
          resumeScore = max 0 (min 100 resumeScore);
          strengthsFound =
            (if length matchingSkills \<ge> 3
             then [''Strong technical skill alignment ('' @ show_nat (length matchingSkills)
                   @ '' matching skills)'']
             else [])
            @ (if length (metrics resume) \<ge> 2
               then [''Good use of quantifiable metrics and achievements''] else [])
            @ (if hasActionVerbs
               then [''Effective use of action verbs to describe accomplishments''] else [])
            @ (if length (certifications resume) > 0
               then [''Relevant certifications found ('' @ join '', '' (certifications resume)
                     @ '')'']
               else [])
            @ (if length matchingKeywords \<ge> 5
               then [''Strong keyword alignment with job description''] else []);
          improvementAreas =
            (if length missingSkills > 0
             then [''Add these in-demand skills if you have them: ''
                   @ join '', '' (take 4 missingSkills)]
             else [])
            @ (if length (metrics resume) < 2
               then [''Include more quantifiable achievements (percentages, dollar amounts, user counts)'']
               else [])
            @ (if \<not> hasActionVerbs
               then [''Start bullet points with strong action verbs (Led, Developed, Achieved, etc.)'']
               else [])
            @ (if length missingKeywords > 3
               then [''Consider incorporating these keywords: ''
                     @ join '', '' (take 4 missingKeywords)]
               else []);
          metricsSuggestions =
            (if str_includes jobText ''team'' \<or> str_includes jobText ''lead''
             then [''Add team size you've managed or collaborated with (e.g., "Led a team of 8 engineers")'']
             else [])
            @ (if str_includes jobText ''performance'' \<or> str_includes jobText ''optimization''
               then [''Include performance improvements (e.g., "Improved load time by 40%")'']
               else [])
            @ (if str_includes jobText ''revenue'' \<or> str_includes jobText ''cost''
               then [''Add business impact metrics (e.g., "Reduced costs by $50K annually")'']
               else [])
            @ (if str_includes jobText ''user'' \<or> str_includes jobText ''customer''
               then [''Include user/customer impact (e.g., "Served 100K+ daily active users")'']
               else [])
            @ (if str_includes jobText ''project'' \<or> str_includes jobText ''delivery''
               then [''Mention project delivery metrics (e.g., "Delivered 15 features ahead of schedule")'']
               else []);
          overallFeedback =
            (if resumeScore \<ge> 80 then feedback_excellent
             else if resumeScore \<ge> 60 then feedback_good
             else if resumeScore \<ge> 40 then feedback_moderate
             else feedback_tailoring)
      in \<lparr>resumeScore = resumeScore,
          matchingKeywords = take 10 (uniq matchingKeywords),
          missingKeywords = take 8 (uniq missingKeywords),
          matchingSkills = uniq matchingSkills,
          missingSkills = take 6 (uniq missingSkills),
          strengthsFound = take 4 strengthsFound,
          improvementAreas = take 4 improvementAreas,
          metricsSuggestions = take 3 metricsSuggestions,
          keywordDensity = Math_round (fmul keywordMatchRatio 100),
          overallFeedback = overallFeedback\<rparr>)\<close>

section \<open>The profile completeness scorer\<close>

record LinkedInAnalysis =
  linkedinScore :: int
  headlineSuggestion :: string
  summaryFeedback :: "string list"
  endorsementSuggestions :: "string list"
  skillGaps :: "string list"
  improvements :: "string list"
  overallFeedback_linkedin :: string

text \<open>
  The profile reference is the one string whose length is observed after lowercasing, and
  \<^verbatim>\<open>toLowerCase\<close> can lengthen a string: U+0130, the capital I with a dot above, becomes
  the two code units U+0069 U+0307.  So the reference is modelled over a larger alphabet
  than the texts: the code units below U+0100 and these two, U+0130 and U+0307, which is
  closed under lowercasing.
\<close>

datatype code_unit = Latin1 char | I_dot_above | Combining_dot_above

text \<open>A string of code units below U+0100, as a string over the larger alphabet.\<close>

definition units :: "string \<Rightarrow> code_unit list" where
  "units s = map Latin1 s"

fun toLowerCase_unit :: "code_unit \<Rightarrow> code_unit list" where
  "toLowerCase_unit (Latin1 c) = [Latin1 (toLowerCase_char c)]"
| "toLowerCase_unit I_dot_above = [Latin1 CHR ''i'', Combining_dot_above]"
| "toLowerCase_unit Combining_dot_above = [Combining_dot_above]"

definition toLowerCase_units :: "code_unit list \<Rightarrow> code_unit list" where
  "toLowerCase_units s = concat (map toLowerCase_unit s)"

fun isWhiteSpace_unit :: "code_unit \<Rightarrow> bool" where
  "isWhiteSpace_unit (Latin1 c) = isWhiteSpace c"
| "isWhiteSpace_unit I_dot_above = False"
| "isWhiteSpace_unit Combining_dot_above = False"

definition trim :: "code_unit list \<Rightarrow> code_unit list" where
  "trim s = rev (dropWhile isWhiteSpace_unit (rev (dropWhile isWhiteSpace_unit s)))"

text \<open>
  \<^verbatim>\<open>linkedinUrl && linkedinUrl.trim().length > 0\<close>, read as a condition: the empty string
  is falsy.
\<close>

definition hasProfile :: "code_unit list \<Rightarrow> bool" where
  "hasProfile linkedinUrl = (linkedinUrl \<noteq> [] \<and> length (trim linkedinUrl) > 0)"

definition linkedin_missing :: string where
  "linkedin_missing = ''LinkedIn profile is missing or incomplete. A complete profile significantly improves your visibility to recruiters.''"

definition linkedin_excellent :: string where
  "linkedin_excellent = ''Excellent LinkedIn profile! Keep it updated and consistent with your resume.''"

definition linkedin_good :: string where
  "linkedin_good = ''Good LinkedIn foundation. Add more specific accomplishments and get skill endorsements.''"

definition linkedin_attention :: string where
  "linkedin_attention = ''Your LinkedIn profile needs attention. Update it with recent experience and stronger positioning.''"

definition analyzeLinkedInProfile ::
  "code_unit list \<Rightarrow> string \<Rightarrow> string \<Rightarrow> string list \<Rightarrow> ResumeAnalysis option
     \<Rightarrow> LinkedInAnalysis" where
  \<open>analyzeLinkedInProfile linkedinUrl jobTitle jobDescription jobRequirements resumeAnalysis =
     (let urlLower = toLowerCase_units linkedinUrl;
          jobText =
            toLowerCase (jobTitle @ '' '' @ jobDescription @ '' '' @ join '' '' jobRequirements);
          jobSkills = filter (\<lambda>skill. str_includes jobText (toLowerCase skill)) TECH_SKILLS;
          linkedinScore = 50;
          linkedinScore =
            (if hasProfile linkedinUrl then
               (let urlIndicators =
                      [str_includes urlLower (units ''/in/''), length urlLower > 30];
                    completenessScore = int (length (filter (\<lambda>b. b) urlIndicators)) * 25;
                    linkedinScore = min 100 (50 + completenessScore)
                in case resumeAnalysis of
                     Some ra \<Rightarrow>
                       Math_round (fdiv (fadd (of_int linkedinScore) (of_int (resumeScore ra))) 2)
                   | None \<Rightarrow> linkedinScore)
             else linkedinScore);
          jobRole = join '' '' (slice_last 2 (split CHR '' '' jobTitle));
          headlineSuggestion =
            (case resumeAnalysis of
               Some ra \<Rightarrow>
                 if length (matchingSkills ra) > 0
                 then jobRole @ '' | '' @ join '' & '' (take 2 (matchingSkills ra))
                      @ '' | Open to Opportunities''
                 else jobRole @ '' | Experienced Professional | Always Learning''
             | None \<Rightarrow> jobRole @ '' | Experienced Professional | Always Learning'');
          summaryFeedback =
            (if \<not> hasProfile linkedinUrl
             then [''Create or complete your LinkedIn profile with a professional photo and comprehensive headline'',
                   ''Add a compelling summary highlighting your career goals and key achievements'']
             else [''Update your headline to match this role: '' @ headlineSuggestion,
                   ''Include specific accomplishments and metrics in your summary section'',
                   ''Mention industry experience and key projects you've worked on'']);
          endorsementSuggestions =
            (case resumeAnalysis of
               Some ra \<Rightarrow> take 5 (matchingSkills ra)
             | None \<Rightarrow> take 5 jobSkills);
          skillGaps =
            (case resumeAnalysis of
               Some ra \<Rightarrow> take 4 (missingSkills ra)
             | None \<Rightarrow> take 4 jobSkills);
          improvements =
            [''Add detailed job descriptions with quantifiable results'',
             ''Get endorsements for skills matching this job role'',
             ''Ask colleagues for recommendations highlighting your strengths'',
             ''Include any relevant certifications and courses'',
             ''Show volunteer work or open source contributions if applicable''];
          overallFeedback =
            (if \<not> hasProfile linkedinUrl then linkedin_missing
             else if linkedinScore \<ge> 80 then linkedin_excellent
             else if linkedinScore \<ge> 60 then linkedin_good
             else linkedin_attention)
      in \<lparr>linkedinScore = linkedinScore,
          headlineSuggestion = headlineSuggestion,
          summaryFeedback = take 3 summaryFeedback,
          endorsementSuggestions = uniq endorsementSuggestions,
          skillGaps = uniq skillGaps,
          improvements = improvements,
          overallFeedback_linkedin = overallFeedback\<rparr>)\<close>


section \<open>The locals of the match scorer as functions of its arguments\<close>

text \<open>
  The values that \<^const>\<open>analyzeResumeForJob\<close> binds on its way, each under the name the
  source gives it, so that statements can speak of them.  Lemmas \<open>analyzeResumeForJob_resumeScore\<close> and \<open>analyzeResumeForJob_keywordDensity\<close> below
  check that they are the values of the function's own bindings.
\<close>

definition jobText_of :: "string \<Rightarrow> string \<Rightarrow> string list \<Rightarrow> string" where
  "jobText_of jobTitle jobDescription jobRequirements =
     toLowerCase (jobTitle @ '' '' @ jobDescription @ '' '' @ join '' '' jobRequirements)"

definition jobSkills_of :: "string \<Rightarrow> string list" where
  "jobSkills_of jobText = filter (\<lambda>skill. str_includes jobText (toLowerCase skill)) TECH_SKILLS"

definition matchingSkills_of :: "ParsedResume \<Rightarrow> string \<Rightarrow> string list" where
  "matchingSkills_of resume jobText =
     filter (\<lambda>skill. list_ex (\<lambda>js. toLowerCase js = toLowerCase skill) (jobSkills_of jobText))
            (skills resume)"

definition matchingKeywords_of :: "ParsedResume \<Rightarrow> string \<Rightarrow> string list" where
  "matchingKeywords_of resume jobText =
     filter (\<lambda>kw. list_ex (\<lambda>jk. toLowerCase jk = toLowerCase kw)
                            (extractKeywordsFromText jobText))
            (extractKeywordsFromText (toLowerCase (rawText resume)))"

definition skillMatchRatio_of :: "ParsedResume \<Rightarrow> string \<Rightarrow> rat" where
  "skillMatchRatio_of resume jobText =
     (if length (jobSkills_of jobText) > 0
      then fdiv (of_nat (length (matchingSkills_of resume jobText)))
                (of_nat (length (jobSkills_of jobText)))
      else 1 / 2)"

definition keywordMatchRatio_of :: "ParsedResume \<Rightarrow> string \<Rightarrow> rat" where
  "keywordMatchRatio_of resume jobText =
     (if length (extractKeywordsFromText jobText) > 0
      then fdiv (of_nat (length (matchingKeywords_of resume jobText)))
                (of_nat (length (extractKeywordsFromText jobText)))
      else 1 / 2)"

definition hasActionVerbs_of :: "ParsedResume \<Rightarrow> bool" where
  "hasActionVerbs_of resume =
     list_ex (\<lambda>verb. str_includes (toLowerCase (rawText resume)) verb) ACTION_VERBS"

text \<open>The argument of \<^verbatim>\<open>Math.round\<close> in the score, from the two ratios and the three signals.\<close>

definition weighted :: "rat \<Rightarrow> rat \<Rightarrow> bool \<Rightarrow> bool \<Rightarrow> bool \<Rightarrow> rat" where
  "weighted skillRatio keywordRatio hasMetrics hasActionVerbs hasCertifications =
     fadd (fadd (fadd (fadd (fmul skillRatio 40) (fmul keywordRatio 30))
                      (if hasMetrics then 15 else 0))
                (if hasActionVerbs then 10 else 0))
          (if hasCertifications then 5 else 0)"


section \<open>The scores as the specification words them\<close>

text \<open>
  Second definitions, written from the specification's sentences and not from the source,
  for the theorems that compare the two.  A term is \<^emph>\<open>present\<close> in a text when it is a
  substring of it.
\<close>

definition spec_substring :: "'a list \<Rightarrow> 'a list \<Rightarrow> bool" where
  "spec_substring t s \<longleftrightarrow> (\<exists>pre post. s = pre @ t @ post)"







text \<open>
  The number of true completeness indicators of a profile reference, in two readings.  In
  the first the length that must exceed 30 is the length of the reference itself; in the
  second it is the length of the lowercased reference.  Both look for \<^verbatim>\<open>/in/\<close> in the
  lowercased reference.
\<close>

definition spec_indicators :: "code_unit list \<Rightarrow> int" where
  "spec_indicators profileRef =
     (if spec_substring (units ''/in/'') (toLowerCase_units profileRef) then 1 else 0)
     + (if length profileRef > 30 then 1 else 0)"

definition spec_indicators_lowercased :: "code_unit list \<Rightarrow> int" where
  "spec_indicators_lowercased profileRef =
     (if spec_substring (units ''/in/'') (toLowerCase_units profileRef) then 1 else 0)
     + (if length (toLowerCase_units profileRef) > 30 then 1 else 0)"

section \<open>Strings and lists: basic facts\<close>

lemma startsWith_iff: "startsWith s t \<longleftrightarrow> (\<exists>post. s = t @ post)"
  by (induction s t rule: startsWith.induct) auto

text \<open>\<^const>\<open>str_includes\<close> is the substring relation.\<close>

lemma str_includes_iff: "str_includes s t \<longleftrightarrow> (\<exists>pre post. s = pre @ t @ post)"
proof (induction s)
  case Nil
  show ?case by (cases t) (auto simp: startsWith_iff)
next
  case (Cons c cs)
  show ?case
  proof
    assume "str_includes (c # cs) t"
    then consider "startsWith (c # cs) t" | "str_includes cs t" by auto
    then show "\<exists>pre post. c # cs = pre @ t @ post"
    proof cases
      case 1
      then obtain post where "c # cs = [] @ t @ post" by (auto simp: startsWith_iff)
      then show ?thesis by blast
    next
      case 2
      with Cons obtain pre post where "cs = pre @ t @ post" by auto
      then have "c # cs = (c # pre) @ t @ post" by simp
      then show ?thesis by blast
    qed
  next
    assume "\<exists>pre post. c # cs = pre @ t @ post"
    then obtain pre post where e: "c # cs = pre @ t @ post" by auto
    show "str_includes (c # cs) t"
    proof (cases pre)
      case Nil
      with e have "startsWith (c # cs) t" by (auto simp: startsWith_iff)
      then show ?thesis by simp
    next
      case (Cons p ps)
      with e have "cs = ps @ t @ post" by simp
      with Cons.IH have "str_includes cs t" by auto
      then show ?thesis by simp
    qed
  qed
qed

lemma foldl_push:
  "foldl (\<lambda>acc x. if P x then acc @ [x] else acc) a xs = a @ filter P xs"
  by (induction xs arbitrary: a) auto

lemma set_uniq: "set (uniq xs) = set xs"
  by (induction xs rule: uniq.induct) auto

lemma distinct_uniq: "distinct (uniq xs)"
  by (induction xs rule: uniq.induct) (auto simp: set_uniq)

lemma uniq_distinct: "distinct xs \<Longrightarrow> uniq xs = xs"
proof (induction xs)
  case Nil
  show ?case by simp
next
  case (Cons a xs)
  then have "filter (\<lambda>y. y \<noteq> a) xs = xs" by (auto simp: filter_id_conv)
  with Cons show ?case by simp
qed

section \<open>The text extractor: results\<close>

lemma skills_parse:
  "skills (parseResumeText text)
     = filter (\<lambda>skill. str_includes (toLowerCase text) (toLowerCase skill)) TECH_SKILLS"
  by (simp only: parseResumeText_def Let_def ParsedResume.select_convs)

lemma metrics_parse:
  "metrics (parseResumeText text)
     = foldl (\<lambda>metrics pattern.
                case match text pattern of
                  Some matches \<Rightarrow> metrics @ matches
                | None \<Rightarrow> metrics)
             [] METRICS_PATTERNS"
  by (simp only: parseResumeText_def Let_def ParsedResume.select_convs)

text \<open>
  Claim C6.  Extraction is case-insensitive over the fixed vocabulary: the extracted skills
  are exactly the vocabulary terms whose lowercase form is a substring of the lowercased
  input, and the inputs \<^verbatim>\<open>I use REACT and React.js\<close> and \<^verbatim>\<open>i use react and react.js\<close> give the same
  skills.
\<close>

theorem extract_skills_case_insensitive:
  "set (skills (parseResumeText text))
     = {t \<in> set TECH_SKILLS. \<exists>pre post. toLowerCase text = pre @ toLowerCase t @ post}
   \<and> skills (parseResumeText ''I use REACT and React.js'')
     = skills (parseResumeText ''i use react and react.js'')"
proof
  have "set (filter (\<lambda>skill. str_includes s (toLowerCase skill)) ts)
     = {t \<in> set ts. \<exists>pre post. s = pre @ toLowerCase t @ post}" for s ts
    unfolding str_includes_iff by auto
  then show "set (skills (parseResumeText text))
     = {t \<in> set TECH_SKILLS. \<exists>pre post. toLowerCase text = pre @ toLowerCase t @ post}"
    unfolding skills_parse .
  have "toLowerCase ''I use REACT and React.js'' = toLowerCase ''i use react and react.js''"
    by code_simp
  then show "skills (parseResumeText ''I use REACT and React.js'')
     = skills (parseResumeText ''i use react and react.js'')"
    unfolding skills_parse by (rule arg_cong)
qed

theorem extract_skills_case_insensitive_witness:
  "(set (skills (parseResumeText ''I use REACT''))
     = {t \<in> set TECH_SKILLS.
          \<exists>pre post. toLowerCase ''I use REACT'' = pre @ toLowerCase t @ post})
   \<and> skills (parseResumeText ''I use REACT'') = [''react'']"
proof (rule conjI)
  show "set (skills (parseResumeText ''I use REACT''))
     = {t \<in> set TECH_SKILLS.
          \<exists>pre post. toLowerCase ''I use REACT'' = pre @ toLowerCase t @ post}"
    by (rule extract_skills_case_insensitive[of "''I use REACT''", THEN conjunct1])
  show "skills (parseResumeText ''I use REACT'') = [''react'']"
    unfolding skills_parse by code_simp
qed

text \<open>
  Claim C10.  The multiplier pattern is case-sensitive and the phrase patterns are not: with
  the uppercase multiplier \<^verbatim>\<open>10X\<close> as the only candidate the metrics are empty, with
  \<^verbatim>\<open>10x\<close> in its place there is one metric; the phrase \<^verbatim>\<open>5 USERS\<close> is a metric in either
  case.
\<close>

theorem multiplier_case_sensitive:
  "metrics (parseResumeText ''Grew sales 10X'') = []
   \<and> metrics (parseResumeText ''Grew sales 10x'') = [''10x'']
   \<and> metrics (parseResumeText ''5 USERS'') = [''5 USERS'']
   \<and> metrics (parseResumeText ''5 users'') = [''5 users'']"
  unfolding metrics_parse by code_simp

section \<open>Numbers: the rounding is monotone and exact on small half-integers\<close>

lemma ilog2_bounds: "0 < n \<Longrightarrow> 2 ^ ilog2 n \<le> n \<and> n < 2 * 2 ^ ilog2 n"
proof (induction n rule: ilog2.induct)
  case (1 n)
  show ?case
  proof (cases "n < 2")
    case True
    with 1(2) have "n = 1" by simp
    then show ?thesis by (simp add: ilog2.simps)
  next
    case False
    then have "0 < n div 2" by simp
    with 1(1) False have IH: "2 ^ ilog2 (n div 2) \<le> n div 2" "n div 2 < 2 * 2 ^ ilog2 (n div 2)"
      by simp_all
    have s: "ilog2 n = Suc (ilog2 (n div 2))" using False by (subst ilog2.simps) simp
    from IH show ?thesis unfolding s by (simp; linarith)
  qed
qed


lemma ilog2_bounds_rat:
  assumes "0 < n"
  shows "(2::rat) ^ ilog2 n \<le> of_nat n" "rat_of_nat n + 1 \<le> 2 * 2 ^ ilog2 n"
proof -
  from ilog2_bounds[OF assms] have b: "2 ^ ilog2 n \<le> n" "n + 1 \<le> 2 * 2 ^ ilog2 n" by auto
  have "rat_of_nat (2 ^ ilog2 n) \<le> rat_of_nat n" using b(1) by (simp only: of_nat_le_iff)
  then show "(2::rat) ^ ilog2 n \<le> of_nat n" by simp
  have "rat_of_nat (n + 1) \<le> rat_of_nat (2 * 2 ^ ilog2 n)" using b(2) by (simp only: of_nat_le_iff)
  then show "rat_of_nat n + 1 \<le> 2 * 2 ^ ilog2 n" by simp
qed

lemma expo_ge1:
  assumes "1 \<le> x"
  shows "2 powi expo x \<le> x \<and> x < 2 powi (expo x + 1)"
proof -
  define n where "n = nat \<lfloor>x\<rfloor>"
  have f: "1 \<le> \<lfloor>x\<rfloor>" using assms by linarith
  then have r: "rat_of_nat n = rat_of_int \<lfloor>x\<rfloor>" unfolding n_def by simp
  have n: "0 < n" using f by (simp add: n_def)
  have lo: "rat_of_nat n \<le> x" unfolding r by linarith
  have hi: "x < rat_of_nat n + 1" unfolding r by linarith
  have e: "expo x = int (ilog2 n)" using assms by (simp add: expo_def n_def)
  have e1: "expo x + 1 = int (Suc (ilog2 n))" using e by simp
  have "2 powi expo x = (2::rat) ^ ilog2 n" unfolding e by (rule power_int_of_nat)
  moreover have "2 powi (expo x + 1) = (2::rat) * 2 ^ ilog2 n"
    unfolding e1 by (simp only: power_int_of_nat power_Suc)
  ultimately show ?thesis using ilog2_bounds_rat[OF n] lo hi by linarith
qed

lemma expo_lt1:
  assumes "0 < x" "x < 1"
  shows "2 powi expo x \<le> x \<and> x < 2 powi (expo x + 1)"
proof -
  define y where "y = 1 / x"
  define n where "n = nat \<lceil>y\<rceil> - 1"
  define p :: rat where "p = 2 ^ ilog2 n"
  have y: "1 < y" "0 < y" using assms by (auto simp: y_def)
  then have c: "2 \<le> \<lceil>y\<rceil>" by linarith
  have "n = nat (\<lceil>y\<rceil> - 1)" unfolding n_def by simp
  then have "rat_of_nat n = rat_of_int (\<lceil>y\<rceil> - 1)" using c by simp
  then have r: "rat_of_nat n = rat_of_int \<lceil>y\<rceil> - 1" by simp
  have n: "0 < n" using c by (simp add: n_def)
  have lo: "rat_of_nat n < y" unfolding r by linarith
  have hi: "y \<le> rat_of_nat n + 1" unfolding r by linarith
  have p: "0 < p" by (simp add: p_def)
  have 1: "p < y" using ilog2_bounds_rat(1)[OF n] lo unfolding p_def by linarith
  have 2: "y \<le> 2 * p" using ilog2_bounds_rat(2)[OF n] hi unfolding p_def by linarith
  have x: "x = 1 / y" using assms by (simp add: y_def)
  have e: "expo x = - int (Suc (ilog2 n))" using assms by (simp add: expo_def n_def y_def)
  have e1: "expo x + 1 = - int (ilog2 n)" using e by simp
  have a: "2 powi expo x = 1 / (2 * p)"
    unfolding e p_def by (simp only: power_int_minus power_int_of_nat power_Suc inverse_eq_divide)
  have b: "2 powi (expo x + 1) = 1 / p"
    unfolding e1 p_def by (simp only: power_int_minus power_int_of_nat inverse_eq_divide)
  have "1 / (2 * p) \<le> 1 / y" using 2 y p by (simp add: frac_le)
  then have lo': "1 / (2 * p) \<le> x" by (simp only: x)
  have "1 / y < 1 / p" using 1 y p by (simp add: frac_less2)
  then have hi': "x < 1 / p" by (simp only: x)
  from lo' hi' show ?thesis by (simp only: a b simp_thms)
qed

lemma expo_bounds: "0 < x \<Longrightarrow> 2 powi expo x \<le> x \<and> x < 2 powi (expo x + 1)"
  using expo_ge1[of x] expo_lt1[of x] by (cases "1 \<le> x") simp_all

lemma rne_of_int: "rne (of_int n) = n"
  by (simp add: rne_def)

lemma rne_bounds: "\<lfloor>x\<rfloor> \<le> rne x \<and> rne x \<le> \<lfloor>x\<rfloor> + 1"
  by (simp add: rne_def Let_def)

lemma rne_mono: assumes "x \<le> y" shows "rne x \<le> rne y"
proof (cases "\<lfloor>x\<rfloor> = \<lfloor>y\<rfloor>")
  case True
  with assms show ?thesis by (auto simp: rne_def Let_def)
next
  case False
  with assms have "\<lfloor>x\<rfloor> + 1 \<le> \<lfloor>y\<rfloor>" using floor_mono[OF assms] by linarith
  with rne_bounds[of x] rne_bounds[of y] show ?thesis by linarith
qed


lemma ulp_pos: "0 < ulp x"
  by (simp add: ulp_def)

lemma ulp_scale:
  "2 powi expo x = 2 ^ 52 * ulp x" "2 powi (expo x + 1) = 2 ^ 53 * ulp x"
proof -
  have "(2::rat) powi expo x = 2 powi (52 + (expo x - 52))"
    by (rule arg_cong[where f = "\<lambda>i. 2 powi i"]) simp
  also have "\<dots> = 2 powi 52 * 2 powi (expo x - 52)" by (rule power_int_add) simp
  finally show "2 powi expo x = 2 ^ 52 * ulp x" by (simp add: ulp_def)
  have "(2::rat) powi (expo x + 1) = 2 powi (53 + (expo x - 52))"
    by (rule arg_cong[where f = "\<lambda>i. 2 powi i"]) simp
  also have "\<dots> = 2 powi 53 * 2 powi (expo x - 52)" by (rule power_int_add) simp
  finally show "2 powi (expo x + 1) = 2 ^ 53 * ulp x" by (simp add: ulp_def)
qed

lemma fl_pos_range:
  assumes "0 < x"
  shows "2 powi expo x \<le> fl_pos x \<and> fl_pos x \<le> 2 powi (expo x + 1)"
proof -
  from expo_bounds[OF assms] have "2 ^ 52 * ulp x \<le> x" "x \<le> 2 ^ 53 * ulp x"
    by (simp_all add: ulp_scale)
  then have "rat_of_int (2 ^ 52) \<le> x / ulp x" "x / ulp x \<le> rat_of_int (2 ^ 53)"
    using ulp_pos[of x] by (simp_all add: field_simps)
  then have "rne (rat_of_int (2 ^ 52)) \<le> rne (x / ulp x)" "rne (x / ulp x) \<le> rne (rat_of_int (2 ^ 53))"
    by (simp_all only: rne_mono)
  then have "2 ^ 52 \<le> rne (x / ulp x)" "rne (x / ulp x) \<le> 2 ^ 53"
    unfolding rne_of_int by simp_all
  then have "rat_of_int (2 ^ 52) \<le> rat_of_int (rne (x / ulp x))" "rat_of_int (rne (x / ulp x)) \<le> rat_of_int (2 ^ 53)"
    by (simp_all only: of_int_le_iff)
  then have "2 ^ 52 * ulp x \<le> fl_pos x" "fl_pos x \<le> 2 ^ 53 * ulp x"
    unfolding fl_pos_def using ulp_pos[of x] by (simp_all add: mult_right_mono)
  then show ?thesis by (simp add: ulp_scale)
qed

lemma fl_pos_gt0: "0 < x \<Longrightarrow> 0 < fl_pos x"
proof -
  assume "0 < x"
  from fl_pos_range[OF this] have "2 powi expo x \<le> fl_pos x" by simp
  moreover have "(0::rat) < 2 powi expo x" by simp
  ultimately show ?thesis by linarith
qed

lemma fl_pos_mono:
  assumes "0 < x" "x \<le> y"
  shows "fl_pos x \<le> fl_pos y"
proof -
  have y: "0 < y" using assms by simp
  have "2 powi expo x \<le> x" using expo_bounds[OF assms(1)] by simp
  also have "x \<le> y" by fact
  also have "y < 2 powi (expo y + 1)" using expo_bounds[OF y] by simp
  finally have "(2::rat) powi expo x < 2 powi (expo y + 1)" .
  then have "expo x < expo y + 1"
    using power_int_increasing[of "expo y + 1" "expo x" "2::rat"] by (cases "expo x < expo y + 1") auto
  then consider "expo x = expo y" | "expo x + 1 \<le> expo y" by linarith
  then show ?thesis
  proof cases
    case 1
    then have u: "ulp x = ulp y" by (simp add: ulp_def)
    have "x / ulp y \<le> y / ulp y" using assms(2) ulp_pos[of y] by (simp add: divide_right_mono)
    then have "rat_of_int (rne (x / ulp y)) \<le> rat_of_int (rne (y / ulp y))"
      by (simp only: of_int_le_iff rne_mono)
    then show ?thesis unfolding fl_pos_def u using ulp_pos[of y] by (simp add: mult_right_mono)
  next
    case 2
    have "fl_pos x \<le> 2 powi (expo x + 1)" using fl_pos_range[OF assms(1)] by simp
    also have "\<dots> \<le> 2 powi expo y" using 2 by (simp add: power_int_increasing)
    also have "\<dots> \<le> fl_pos y" using fl_pos_range[OF y] by simp
    finally show ?thesis .
  qed
qed

lemma fl_mono: assumes "x \<le> y" shows "fl x \<le> fl y"
proof -
  consider "0 < x" | "x = 0" "y = 0" | "x = 0" "0 < y" | "x < 0" "0 \<le> y" | "x < 0" "y < 0"
    using assms by linarith
  then show ?thesis
  proof cases
    case 1
    then show ?thesis using assms fl_pos_mono[of x y] by (simp add: fl_def)
  next
    case 2 then show ?thesis by simp
  next
    case 3 then show ?thesis using fl_pos_gt0[of y] by (simp add: fl_def)
  next
    case 4
    then have "fl x < 0" using fl_pos_gt0[of "- x"] by (simp add: fl_def)
    moreover have "0 \<le> fl y" using 4 fl_pos_gt0[of y] by (cases "y = 0") (simp_all add: fl_def)
    ultimately show ?thesis by simp
  next
    case 5
    then have "fl_pos (- y) \<le> fl_pos (- x)" using assms by (intro fl_pos_mono) simp_all
    then show ?thesis using 5 by (simp add: fl_def)
  qed
qed

lemma fl_0: "fl 0 = 0" by (simp add: fl_def)
lemma fl_1: "fl 1 = 1" by code_simp
lemma fl_100: "fl 100 = 100" by code_simp

lemma Math_round_mono: "x \<le> y \<Longrightarrow> Math_round x \<le> Math_round y"
  unfolding Math_round_def by (intro floor_mono) simp

lemma Math_round_of_int: "Math_round (of_int n) = n"
  unfolding Math_round_def by linarith

text \<open>A value \<open>n / 2\<close> with \<open>0 \<le> n < 2\<^sup>5\<^sup>0\<close> is a binary64 number: rounding leaves it as it is.\<close>

lemma fl_half_int:
  assumes "0 \<le> n" "n < 2 ^ 50"
  shows "fl (of_int n / 2) = of_int n / 2"
proof (cases "n = 0")
  case True
  then show ?thesis by (simp add: fl_def)
next
  case False
  define x :: rat where "x = of_int n / 2"
  have x: "0 < x" using assms False by (simp add: x_def)
  have "rat_of_int n < rat_of_int (2 ^ 50)" using assms(2) by (simp only: of_int_less_iff)
  then have "x < 2 ^ 49" by (simp add: x_def)
  moreover have "2 powi expo x \<le> x" using expo_bounds[OF x] by simp
  ultimately have "(2::rat) powi expo x < 2 powi 49" by simp
  then have e: "expo x < 49"
    using power_int_increasing[of 49 "expo x" "2::rat"] by (cases "expo x < 49") auto
  define k where "k = nat (51 - expo x)"
  have "expo x - 52 = - int (Suc k)" using e by (simp add: k_def)
  then have u: "ulp x = inverse (2 ^ Suc k)"
    unfolding ulp_def by (simp only: power_int_minus power_int_of_nat)
  have "x / ulp x = x * 2 ^ Suc k" unfolding u by (simp only: divide_inverse inverse_inverse_eq)
  also have "\<dots> = rat_of_int n * 2 ^ k" by (simp add: x_def)
  also have "\<dots> = rat_of_int (n * 2 ^ k)" by simp
  finally have "x / ulp x = rat_of_int (n * 2 ^ k)" .
  then have "rne (x / ulp x) = n * 2 ^ k" by (simp only: rne_of_int)
  then have "fl_pos x = rat_of_int (n * 2 ^ k) * inverse (2 ^ Suc k)"
    unfolding fl_pos_def u by simp
  then have "fl_pos x = x" by (simp add: x_def)
  with x show ?thesis unfolding x_def by (simp add: fl_def)
qed

lemma fl_int:
  assumes "0 \<le> n" "n < 2 ^ 49"
  shows "fl (of_int n) = of_int n"
proof -
  have "fl (of_int (2 * n) / 2) = of_int (2 * n) / 2"
    using assms by (intro fl_half_int) auto
  then show ?thesis by simp
qed

section \<open>The profile completeness scorer: results\<close>

text \<open>A string trims to the empty string exactly when it has only white space, or nothing.\<close>

lemma dropWhile_all_iff: "(\<forall>x\<in>set (dropWhile P xs). P x) \<longleftrightarrow> (\<forall>x\<in>set xs. P x)"
  by (induction xs) auto

lemma trim_Nil_iff: "trim s = [] \<longleftrightarrow> (\<forall>c\<in>set s. isWhiteSpace_unit c)"
  unfolding trim_def by (simp add: dropWhile_eq_Nil_conv dropWhile_all_iff)

lemma hasProfile_iff: "hasProfile linkedinUrl \<longleftrightarrow> trim linkedinUrl \<noteq> []"
proof (cases linkedinUrl)
  case Nil
  then show ?thesis by (simp add: hasProfile_def trim_def)
next
  case (Cons c cs)
  then show ?thesis by (simp add: hasProfile_def)
qed

lemma linkedinScore_eq:
  "linkedinScore (analyzeLinkedInProfile linkedinUrl t d r resumeAnalysis) =
     (if hasProfile linkedinUrl then
        (case resumeAnalysis of
           Some ra \<Rightarrow>
             Math_round (fdiv (fadd (of_int (min 100 (50 + int (length (filter (\<lambda>b. b)
               [str_includes (toLowerCase_units linkedinUrl) (units ''/in/''),
                length (toLowerCase_units linkedinUrl) > 30])) * 25)))
               (of_int (resumeScore ra))) 2)
         | None \<Rightarrow>
             min 100 (50 + int (length (filter (\<lambda>b. b)
               [str_includes (toLowerCase_units linkedinUrl) (units ''/in/''),
                length (toLowerCase_units linkedinUrl) > 30])) * 25))
      else 50)"
  by (simp only: analyzeLinkedInProfile_def Let_def LinkedInAnalysis.select_convs)

lemma overallFeedback_linkedin_eq:
  "overallFeedback_linkedin (analyzeLinkedInProfile linkedinUrl t d r resumeAnalysis) =
     (if \<not> hasProfile linkedinUrl then linkedin_missing
      else if linkedinScore (analyzeLinkedInProfile linkedinUrl t d r resumeAnalysis) \<ge> 80
        then linkedin_excellent
      else if linkedinScore (analyzeLinkedInProfile linkedinUrl t d r resumeAnalysis) \<ge> 60
        then linkedin_good
      else linkedin_attention)"
  by (simp only: analyzeLinkedInProfile_def Let_def LinkedInAnalysis.select_convs)

text \<open>
  The score before the resume is blended in, as \<^const>\<open>analyzeLinkedInProfile\<close> computes
  it, counts the indicators of the lowercased reference.
\<close>

lemma profile_base:
  "min 100 (50 + int (length (filter (\<lambda>b. b)
      [str_includes (toLowerCase_units linkedinUrl) (units ''/in/''),
       length (toLowerCase_units linkedinUrl) > 30]))
      * 25)
   = min 100 (50 + 25 * spec_indicators_lowercased linkedinUrl)"
  unfolding spec_indicators_lowercased_def spec_substring_def str_includes_iff[symmetric]
  by simp

text \<open>
  Lowercasing adds one code unit for every U+0130, and none otherwise: for a reference
  without U+0130 the two readings of the indicators agree.
\<close>

lemma length_toLowerCase_units:
  "length (toLowerCase_units s) = length s + length (filter (\<lambda>u. u = I_dot_above) s)"
proof (induction s)
  case Nil
  show ?case by (simp add: toLowerCase_units_def)
next
  case (Cons u s)
  then show ?case by (cases u) (simp_all add: toLowerCase_units_def)
qed

lemma spec_indicators_agree:
  "I_dot_above \<notin> set profileRef
     \<Longrightarrow> spec_indicators profileRef = spec_indicators_lowercased profileRef"
proof -
  assume "I_dot_above \<notin> set profileRef"
  then have "filter (\<lambda>u. u = I_dot_above) profileRef = []"
    by (auto simp: filter_empty_conv)
  then have "length (toLowerCase_units profileRef) = length profileRef"
    unfolding length_toLowerCase_units by simp
  then show ?thesis
    unfolding spec_indicators_def spec_indicators_lowercased_def by simp
qed

text \<open>
  Claim C7.  With a profile reference that trims to the empty string, that is, an empty or
  whitespace-only one, whatever the target and whether or not a match result is supplied:
  there is no profile, the score is exactly 50 (the match result's score is not blended
  in), and the overall feedback is the fixed missing-profile narrative.
\<close>

theorem empty_profile_reference:
  assumes "trim linkedinUrl = []"
  shows "\<not> hasProfile linkedinUrl
    \<and> linkedinScore (analyzeLinkedInProfile linkedinUrl t d r resumeAnalysis) = 50
    \<and> overallFeedback_linkedin (analyzeLinkedInProfile linkedinUrl t d r resumeAnalysis)
        = linkedin_missing"
proof -
  from assms have h: "\<not> hasProfile linkedinUrl" by (simp add: hasProfile_iff)
  then show ?thesis
    unfolding linkedinScore_eq overallFeedback_linkedin_eq by (simp only: if_True if_False simp_thms)
qed

theorem empty_profile_reference_witness:
  "\<not> hasProfile (units '' '')
   \<and> linkedinScore (analyzeLinkedInProfile (units '' '') ''Engineer'' ''We build things''
        [''python'']
        (Some (analyzeResumeForJob (parseResumeText ''python'') ''Engineer'' ''We build things''
           [''python''])))
     = 50
   \<and> overallFeedback_linkedin (analyzeLinkedInProfile (units '' '') ''Engineer''
        ''We build things'' [''python'']
        (Some (analyzeResumeForJob (parseResumeText ''python'') ''Engineer'' ''We build things''
           [''python''])))
     = linkedin_missing"
proof -
  have "trim (units '' '') = []" by code_simp
  then show ?thesis by (rule empty_profile_reference)
qed

text \<open>
  Claim C8, as the code has it.  With a profile reference that is not empty after trimming,
  the score is \<open>min(100, 50 + 25 * indicators)\<close>, the indicators being that the lowercased
  reference contains \<^verbatim>\<open>/in/\<close> and that the length of the lowercased reference exceeds 30;
  with a match result supplied it is \<^verbatim>\<open>Math.round\<close> of the mean of that score and the match
  result's score, which for a match score between 0 and 100 is the exact mean rounded, a
  tie going up.
\<close>

theorem profile_score:
  assumes "trim linkedinUrl \<noteq> []"
  shows "linkedinScore (analyzeLinkedInProfile linkedinUrl t d r None)
           = min 100 (50 + 25 * spec_indicators_lowercased linkedinUrl)
    \<and> linkedinScore (analyzeLinkedInProfile linkedinUrl t d r (Some ra))
           = Math_round
               (fdiv (fadd (of_int (min 100 (50 + 25 * spec_indicators_lowercased linkedinUrl)))
                           (of_int (resumeScore ra))) 2)
    \<and> (0 \<le> resumeScore ra \<and> resumeScore ra \<le> 100 \<longrightarrow>
         linkedinScore (analyzeLinkedInProfile linkedinUrl t d r (Some ra))
           = Math_round ((of_int (min 100 (50 + 25 * spec_indicators_lowercased linkedinUrl))
                          + of_int (resumeScore ra)) / 2))"
proof -
  define base where "base = min 100 (50 + 25 * spec_indicators_lowercased linkedinUrl)"
  from assms have h: "hasProfile linkedinUrl" by (simp add: hasProfile_iff)
  have n: "linkedinScore (analyzeLinkedInProfile linkedinUrl t d r None) = base"
    unfolding linkedinScore_eq profile_base base_def using h by simp
  have s: "linkedinScore (analyzeLinkedInProfile linkedinUrl t d r (Some ra))
           = Math_round (fdiv (fadd (of_int base) (of_int (resumeScore ra))) 2)"
    unfolding linkedinScore_eq profile_base base_def using h by simp
  have b: "50 \<le> base" "base \<le> 100"
    by (simp_all add: base_def spec_indicators_lowercased_def)
  have e: "fdiv (fadd (of_int base) (of_int (resumeScore ra))) 2
             = (of_int base + of_int (resumeScore ra)) / 2"
    if "0 \<le> resumeScore ra" "resumeScore ra \<le> 100"
  proof -
    have "fl (rat_of_int (base + resumeScore ra)) = rat_of_int (base + resumeScore ra)"
      using b that by (intro fl_int) simp_all
    moreover have "fl (rat_of_int (base + resumeScore ra) / 2)
                     = rat_of_int (base + resumeScore ra) / 2"
      using b that by (intro fl_half_int) simp_all
    ultimately show ?thesis by (simp add: fdiv_def fadd_def)
  qed
  have m: "0 \<le> resumeScore ra \<and> resumeScore ra \<le> 100 \<longrightarrow>
         linkedinScore (analyzeLinkedInProfile linkedinUrl t d r (Some ra))
           = Math_round ((of_int base + of_int (resumeScore ra)) / 2)"
  proof
    assume a: "0 \<le> resumeScore ra \<and> resumeScore ra \<le> 100"
    show "linkedinScore (analyzeLinkedInProfile linkedinUrl t d r (Some ra))
           = Math_round ((of_int base + of_int (resumeScore ra)) / 2)"
      unfolding s using e[OF conjunct1[OF a] conjunct2[OF a]] by (rule arg_cong)
  qed
  show ?thesis unfolding base_def[symmetric] by (rule conjI[OF n conjI[OF s m]])
qed

lemma spec_indicators_lowercased_code:
  "spec_indicators_lowercased profileRef =
     (if str_includes (toLowerCase_units profileRef) (units ''/in/'') then 1 else 0)
     + (if length (toLowerCase_units profileRef) > 30 then 1 else 0)"
  unfolding spec_indicators_lowercased_def spec_substring_def str_includes_iff ..

lemma spec_indicators_code:
  "spec_indicators profileRef =
     (if str_includes (toLowerCase_units profileRef) (units ''/in/'') then 1 else 0)
     + (if length profileRef > 30 then 1 else 0)"
  unfolding spec_indicators_def spec_substring_def str_includes_iff ..

theorem profile_score_witness:
  "linkedinScore (analyzeLinkedInProfile (units ''https://www.linkedin.com/in/jane-doe'')
      ''Engineer'' [] [] None) = 100
   \<and> linkedinScore (analyzeLinkedInProfile (units ''https://www.linkedin.com/in/jane-doe'')
      ''Engineer'' [] []
      (Some \<lparr>resumeScore = 49, matchingKeywords = [], missingKeywords = [],
             matchingSkills = [], missingSkills = [], strengthsFound = [],
             improvementAreas = [], metricsSuggestions = [], keywordDensity = 50,
             overallFeedback = feedback_moderate\<rparr>)) = 75"
proof -
  have h: "trim (units ''https://www.linkedin.com/in/jane-doe'') \<noteq> []" by code_simp
  have i: "spec_indicators_lowercased (units ''https://www.linkedin.com/in/jane-doe'') = 2"
    unfolding spec_indicators_lowercased_code by code_simp
  have m: "Math_round (fdiv (fadd 100 49) 2) = 75" by code_simp
  from profile_score[OF h, of "''Engineer''" "[]" "[]"
      "\<lparr>resumeScore = 49, matchingKeywords = [], missingKeywords = [],
             matchingSkills = [], missingSkills = [], strengthsFound = [],
             improvementAreas = [], metricsSuggestions = [], keywordDensity = 50,
             overallFeedback = feedback_moderate\<rparr>"]
  show ?thesis unfolding i by (simp add: m)
qed

text \<open>
  Against claim C8 as stated, with the length of the reference itself.  The reference
  \<^verbatim>\<open>linkedin.com/u/\<close>, U+0130, \<^verbatim>\<open>stanbul-coder1\<close> has 30 code units and no \<^verbatim>\<open>/in/\<close>: by the
  claim no indicator is true and the score is 50.  Its lowercase form has 31 code units,
  and the code returns 75.
\<close>

theorem profile_score_own_length_counterexample:
  "length (units ''linkedin.com/u/'' @ [I_dot_above] @ units ''stanbul-coder1'') = 30
   \<and> trim (units ''linkedin.com/u/'' @ [I_dot_above] @ units ''stanbul-coder1'') \<noteq> []
   \<and> min 100 (50 + 25 * spec_indicators
        (units ''linkedin.com/u/'' @ [I_dot_above] @ units ''stanbul-coder1'')) = 50
   \<and> linkedinScore (analyzeLinkedInProfile
        (units ''linkedin.com/u/'' @ [I_dot_above] @ units ''stanbul-coder1'')
        ''Engineer'' [] [] None) = 75"
proof -
  have l: "length (units ''linkedin.com/u/'' @ [I_dot_above] @ units ''stanbul-coder1'') = 30"
    by code_simp
  have t: "trim (units ''linkedin.com/u/'' @ [I_dot_above] @ units ''stanbul-coder1'') \<noteq> []"
    by code_simp
  have c: "min 100 (50 + 25 * spec_indicators
        (units ''linkedin.com/u/'' @ [I_dot_above] @ units ''stanbul-coder1'')) = 50"
    unfolding spec_indicators_code by code_simp
  have s: "linkedinScore (analyzeLinkedInProfile
        (units ''linkedin.com/u/'' @ [I_dot_above] @ units ''stanbul-coder1'')
        ''Engineer'' [] [] None) = 75"
    unfolding linkedinScore_eq by code_simp
  from l t c s show ?thesis by (simp only: simp_thms)
qed

section \<open>The match scorer: results\<close>

lemma analyzeResumeForJob_resumeScore:
  "resumeScore (analyzeResumeForJob resume t d r) =
     max 0 (min 100 (Math_round (weighted
        (skillMatchRatio_of resume (jobText_of t d r))
        (keywordMatchRatio_of resume (jobText_of t d r))
        (length (metrics resume) > 0) (hasActionVerbs_of resume)
        (length (certifications resume) > 0))))"
  by (simp only: analyzeResumeForJob_def Let_def weighted_def skillMatchRatio_of_def
        keywordMatchRatio_of_def hasActionVerbs_of_def matchingSkills_of_def
        matchingKeywords_of_def jobSkills_of_def jobText_of_def ResumeAnalysis.select_convs)

lemma analyzeResumeForJob_keywordDensity:
  "keywordDensity (analyzeResumeForJob resume t d r) =
     Math_round (fmul (keywordMatchRatio_of resume (jobText_of t d r)) 100)"
  by (simp only: analyzeResumeForJob_def Let_def keywordMatchRatio_of_def
        matchingKeywords_of_def jobText_of_def ResumeAnalysis.select_convs)

text \<open>
  Claim C9, as the code has it.  The overall feedback of the profile completeness scorer is
  the missing-profile narrative whenever there is no profile, before any score band; with
  a profile it is one of three narratives, for a score of at least 80, of at least 60, and
  below 60.  The four narratives are different strings.
\<close>

theorem linkedin_feedback_bands:
  "overallFeedback_linkedin (analyzeLinkedInProfile linkedinUrl t d r resumeAnalysis) =
     (if \<not> hasProfile linkedinUrl then linkedin_missing
      else if linkedinScore (analyzeLinkedInProfile linkedinUrl t d r resumeAnalysis) \<ge> 80
        then linkedin_excellent
      else if linkedinScore (analyzeLinkedInProfile linkedinUrl t d r resumeAnalysis) \<ge> 60
        then linkedin_good
      else linkedin_attention)
   \<and> distinct [linkedin_missing, linkedin_excellent, linkedin_good, linkedin_attention]"
proof
  show "overallFeedback_linkedin (analyzeLinkedInProfile linkedinUrl t d r resumeAnalysis) =
     (if \<not> hasProfile linkedinUrl then linkedin_missing
      else if linkedinScore (analyzeLinkedInProfile linkedinUrl t d r resumeAnalysis) \<ge> 80
        then linkedin_excellent
      else if linkedinScore (analyzeLinkedInProfile linkedinUrl t d r resumeAnalysis) \<ge> 60
        then linkedin_good
      else linkedin_attention)"
    by (rule overallFeedback_linkedin_eq)
  show "distinct [linkedin_missing, linkedin_excellent, linkedin_good, linkedin_attention]"
    by code_simp
qed

text \<open>A worked example: the resume text \<^verbatim>\<open>hello\<close> against the job title \<^verbatim>\<open>Python Developer\<close>.\<close>

lemma ex1_jobText: "jobText_of ''Python Developer'' [] [] = ''python developer  ''"
  by code_simp

lemma ex1_jobSkills: "jobSkills_of ''python developer  '' = [''python'']"
  by code_simp

lemma ex1_jobKeywords: "extractKeywordsFromText ''python developer  '' = [''python'']"
  by code_simp

lemma ex1_resume:
  "parseResumeText ''hello'' =
     \<lparr>rawText = ''hello'', skills = [], experience = [], education = [],
      certifications = [], keywords_field = [], metrics = []\<rparr>"
  by code_simp

lemma ex1_resumeText: "toLowerCase ''hello'' = ''hello''"
  by code_simp

lemma ex1_resumeKeywords: "extractKeywordsFromText ''hello'' = []"
  by code_simp

lemma ex1_actionVerbs: "\<not> list_ex (str_includes ''hello'') ACTION_VERBS"
  by code_simp

lemma ex1_resumeScore:
  "resumeScore (analyzeResumeForJob (parseResumeText ''hello'') ''Python Developer'' [] []) = 0"
  unfolding analyzeResumeForJob_resumeScore skillMatchRatio_of_def keywordMatchRatio_of_def
    matchingSkills_of_def matchingKeywords_of_def hasActionVerbs_of_def
    ex1_resume ParsedResume.select_convs ex1_resumeText ex1_jobText ex1_jobSkills
    ex1_jobKeywords ex1_resumeKeywords
  using ex1_actionVerbs by code_simp

text \<open>
  Against claim C9 as stated: there is no band at 40.  The same profile reference scores 50
  alone and 25 when blended with a resume analysis of score 0, one score in the claimed
  band from 40 and one below it, and both get the same narrative.
\<close>

theorem linkedin_feedback_no_band_at_40:
  "hasProfile (units ''linkedin.com/u/jane'')
   \<and> linkedinScore (analyzeLinkedInProfile (units ''linkedin.com/u/jane'') ''Python Developer'' [] []
        None) = 50
   \<and> linkedinScore (analyzeLinkedInProfile (units ''linkedin.com/u/jane'') ''Python Developer'' [] []
        (Some (analyzeResumeForJob (parseResumeText ''hello'') ''Python Developer'' [] [])))
       = 25
   \<and> overallFeedback_linkedin (analyzeLinkedInProfile (units ''linkedin.com/u/jane'')
        ''Python Developer'' [] [] None)
     = overallFeedback_linkedin (analyzeLinkedInProfile (units ''linkedin.com/u/jane'')
        ''Python Developer'' [] []
        (Some (analyzeResumeForJob (parseResumeText ''hello'') ''Python Developer'' [] [])))"
proof -
  have h: "hasProfile (units ''linkedin.com/u/jane'')" by code_simp
  have a: "linkedinScore (analyzeLinkedInProfile (units ''linkedin.com/u/jane'') ''Python Developer''
             [] [] None) = 50"
    unfolding linkedinScore_eq by code_simp
  have b: "linkedinScore (analyzeLinkedInProfile (units ''linkedin.com/u/jane'') ''Python Developer''
             [] []
             (Some (analyzeResumeForJob (parseResumeText ''hello'') ''Python Developer''
                [] []))) = 25"
    unfolding linkedinScore_eq option.case ex1_resumeScore by code_simp
  show ?thesis
    unfolding overallFeedback_linkedin_eq a b using h a b by simp
qed

text \<open>
  Claim C2.  The returned lists respect their caps, for every input: at most 10 matching
  keywords, 8 missing keywords, 6 missing skills, 4 strengths, 4 improvement areas and 3
  metrics suggestions.
\<close>

theorem list_caps:
  "length (matchingKeywords (analyzeResumeForJob resume t d r)) \<le> 10
   \<and> length (missingKeywords (analyzeResumeForJob resume t d r)) \<le> 8
   \<and> length (missingSkills (analyzeResumeForJob resume t d r)) \<le> 6
   \<and> length (strengthsFound (analyzeResumeForJob resume t d r)) \<le> 4
   \<and> length (improvementAreas (analyzeResumeForJob resume t d r)) \<le> 4
   \<and> length (metricsSuggestions (analyzeResumeForJob resume t d r)) \<le> 3"
  by (simp only: analyzeResumeForJob_def Let_def ResumeAnalysis.select_convs length_take
        min.cobounded2 simp_thms)

lemma weighted_half:
  "weighted (1 / 2) (1 / 2) m a c
     = rat_of_int (35 + (if m then 15 else 0) + (if a then 10 else 0) + (if c then 5 else 0))"
proof -
  have "weighted (1 / 2) (1 / 2) True True True = 65"
       "weighted (1 / 2) (1 / 2) True True False = 60"
       "weighted (1 / 2) (1 / 2) True False True = 55"
       "weighted (1 / 2) (1 / 2) True False False = 50"
       "weighted (1 / 2) (1 / 2) False True True = 50"
       "weighted (1 / 2) (1 / 2) False True False = 45"
       "weighted (1 / 2) (1 / 2) False False True = 40"
       "weighted (1 / 2) (1 / 2) False False False = 35"
    by code_simp+
  then show ?thesis by (cases m; cases a; cases c) simp_all
qed

lemma empty_jobText: "jobText_of [] [] [] = ''  ''"
  by code_simp

lemma empty_jobSkills: "jobSkills_of ''  '' = []"
  by code_simp

lemma empty_jobKeywords: "extractKeywordsFromText ''  '' = []"
  by code_simp

text \<open>
  Claim C5.  Extraction of the empty string gives the profile with every collection empty
  and the empty raw text; the model has no failing branch, as the source has none.  For
  every profile, the match scorer called with empty title, empty description and no
  requirements finds no target skill and no target keyword, so both ratios are 0.5 and the
  score is 35, the floor of the two default ratios, plus 15 for metrics, 10 for action verbs
  and 5 for certifications of the profile.
\<close>

theorem empty_input_degradation:
  "parseResumeText [] =
     \<lparr>rawText = [], skills = [], experience = [], education = [], certifications = [],
      keywords_field = [], metrics = []\<rparr>
   \<and> jobSkills_of (jobText_of [] [] []) = []
   \<and> extractKeywordsFromText (jobText_of [] [] []) = []
   \<and> skillMatchRatio_of resume (jobText_of [] [] []) = 1 / 2
   \<and> keywordMatchRatio_of resume (jobText_of [] [] []) = 1 / 2
   \<and> resumeScore (analyzeResumeForJob resume [] [] []) =
       35 + (if metrics resume \<noteq> [] then 15 else 0)
          + (if hasActionVerbs_of resume then 10 else 0)
          + (if certifications resume \<noteq> [] then 5 else 0)
   \<and> keywordDensity (analyzeResumeForJob resume [] [] []) = 50"
proof -
  have p: "parseResumeText [] =
     \<lparr>rawText = [], skills = [], experience = [], education = [], certifications = [],
      keywords_field = [], metrics = []\<rparr>"
    by code_simp
  have s: "skillMatchRatio_of resume ''  '' = 1 / 2"
    by (simp add: skillMatchRatio_of_def empty_jobSkills)
  have k: "keywordMatchRatio_of resume ''  '' = 1 / 2"
    by (simp add: keywordMatchRatio_of_def empty_jobKeywords)
  have sc: "resumeScore (analyzeResumeForJob resume [] [] []) =
       35 + (if metrics resume \<noteq> [] then 15 else 0)
          + (if hasActionVerbs_of resume then 10 else 0)
          + (if certifications resume \<noteq> [] then 5 else 0)"
    unfolding analyzeResumeForJob_resumeScore empty_jobText s k weighted_half Math_round_of_int
    by simp
  have "Math_round (fmul (1 / 2) 100) = 50" by code_simp
  then have d: "keywordDensity (analyzeResumeForJob resume [] [] []) = 50"
    unfolding analyzeResumeForJob_keywordDensity empty_jobText k .
  show ?thesis
    unfolding empty_jobText using p s k sc d empty_jobSkills empty_jobKeywords
    by (simp only: simp_thms)
qed

section \<open>The vocabularies are lowercase and without duplicates\<close>

lemma vocab_lower: "map toLowerCase (TECH_SKILLS @ jobTerms) = TECH_SKILLS @ jobTerms"
  by code_simp

lemma vocab_distinct: "distinct (TECH_SKILLS @ jobTerms)"
  by code_simp

lemma map_fixed: "map f xs = xs \<Longrightarrow> x \<in> set xs \<Longrightarrow> f x = x"
  by (induction xs) auto

lemma vocab_toLowerCase: "t \<in> set TECH_SKILLS \<union> set jobTerms \<Longrightarrow> toLowerCase t = t"
  using map_fixed[OF vocab_lower, of t] by simp


lemma extractKeywordsFromText_eq:
  "extractKeywordsFromText text = filter (str_includes text) (TECH_SKILLS @ jobTerms)"
proof -
  have "extractKeywordsFromText text
          = uniq (filter (\<lambda>t. str_includes text (toLowerCase t)) (TECH_SKILLS @ jobTerms))"
    unfolding extractKeywordsFromText_def Let_def foldl_push by simp
  also have "filter (\<lambda>t. str_includes text (toLowerCase t)) (TECH_SKILLS @ jobTerms)
          = filter (str_includes text) (TECH_SKILLS @ jobTerms)"
    by (rule filter_cong) (simp_all add: vocab_toLowerCase)
  also have "uniq \<dots> = \<dots>"
    by (rule uniq_distinct) (rule distinct_filter[OF vocab_distinct])
  finally show ?thesis .
qed

lemma distinct_extractKeywordsFromText: "distinct (extractKeywordsFromText text)"
  unfolding extractKeywordsFromText_eq by (rule distinct_filter[OF vocab_distinct])

lemma extractKeywordsFromText_vocab:
  "k \<in> set (extractKeywordsFromText text) \<Longrightarrow> k \<in> set TECH_SKILLS \<union> set jobTerms"
  unfolding extractKeywordsFromText_eq by auto

text \<open>The matching keywords are keywords of the job, each once.\<close>

lemma matchingKeywords_of_set:
  "set (matchingKeywords_of resume jobText)
     = set (extractKeywordsFromText (toLowerCase (rawText resume)))
       \<inter> set (extractKeywordsFromText jobText)"
proof -
  have "list_ex (\<lambda>jk. toLowerCase jk = toLowerCase kw) (extractKeywordsFromText jobText)
          \<longleftrightarrow> kw \<in> set (extractKeywordsFromText jobText)"
    if "kw \<in> set (extractKeywordsFromText (toLowerCase (rawText resume)))" for kw
  proof -
    have kw: "toLowerCase kw = kw"
      using that by (intro vocab_toLowerCase extractKeywordsFromText_vocab)
    have "toLowerCase jk = jk" if "jk \<in> set (extractKeywordsFromText jobText)" for jk
      using that by (intro vocab_toLowerCase extractKeywordsFromText_vocab)
    then show ?thesis unfolding list_ex_iff kw by auto
  qed
  then show ?thesis unfolding matchingKeywords_of_def by auto
qed

lemma distinct_matchingKeywords_of: "distinct (matchingKeywords_of resume jobText)"
  unfolding matchingKeywords_of_def
  by (rule distinct_filter[OF distinct_extractKeywordsFromText])

lemma length_matchingKeywords_of:
  "length (matchingKeywords_of resume jobText) \<le> length (extractKeywordsFromText jobText)"
proof -
  have "card (set (matchingKeywords_of resume jobText))
          \<le> card (set (extractKeywordsFromText jobText))"
    unfolding matchingKeywords_of_set by (intro card_mono) simp_all
  then show ?thesis
    by (simp only: distinct_card[OF distinct_matchingKeywords_of]
          distinct_card[OF distinct_extractKeywordsFromText])
qed

section \<open>Bounds\<close>

lemma fdiv_unit:
  assumes "m \<le> n" "0 < n"
  shows "0 \<le> fdiv (of_nat m) (of_nat n) \<and> fdiv (of_nat m) (of_nat n) \<le> 1"
proof -
  have "0 \<le> rat_of_nat m / rat_of_nat n" by simp
  then have "fl 0 \<le> fl (rat_of_nat m / rat_of_nat n)" by (rule fl_mono)
  moreover have "rat_of_nat m / rat_of_nat n \<le> 1" using assms by simp
  then have "fl (rat_of_nat m / rat_of_nat n) \<le> fl 1" by (rule fl_mono)
  ultimately show ?thesis unfolding fdiv_def fl_0 fl_1 by simp
qed

lemma keywordMatchRatio_of_unit:
  "0 \<le> keywordMatchRatio_of resume jobText \<and> keywordMatchRatio_of resume jobText \<le> 1"
proof (cases "length (extractKeywordsFromText jobText) > 0")
  case True
  with fdiv_unit[OF length_matchingKeywords_of True, of resume] show ?thesis
    by (simp add: keywordMatchRatio_of_def)
next
  case False
  then show ?thesis by (simp add: keywordMatchRatio_of_def)
qed

text \<open>
  Claim C3.  For every input the returned score and the returned keyword density lie
  between 0 and 100.
\<close>

theorem score_bounds:
  "0 \<le> resumeScore (analyzeResumeForJob resume t d r)
   \<and> resumeScore (analyzeResumeForJob resume t d r) \<le> 100
   \<and> 0 \<le> keywordDensity (analyzeResumeForJob resume t d r)
   \<and> keywordDensity (analyzeResumeForJob resume t d r) \<le> 100"
proof -
  define k where "k = keywordMatchRatio_of resume (jobText_of t d r)"
  have k: "0 \<le> k" "k \<le> 1" using keywordMatchRatio_of_unit by (simp_all add: k_def)
  have "0 \<le> k * 100" "k * 100 \<le> 100" using k by simp_all
  then have "fl 0 \<le> fl (k * 100)" "fl (k * 100) \<le> fl 100" by (simp_all only: fl_mono)
  then have "rat_of_int 0 \<le> fmul k 100" "fmul k 100 \<le> rat_of_int 100"
    unfolding fmul_def fl_0 fl_100 by simp_all
  then have "Math_round (rat_of_int 0) \<le> Math_round (fmul k 100)"
    "Math_round (fmul k 100) \<le> Math_round (rat_of_int 100)"
    by (simp_all only: Math_round_mono)
  then have "0 \<le> Math_round (fmul k 100)" "Math_round (fmul k 100) \<le> 100"
    unfolding Math_round_of_int by simp_all
  then show ?thesis
    unfolding analyzeResumeForJob_resumeScore analyzeResumeForJob_keywordDensity k_def
    by simp
qed

section \<open>Monotonicity in the matched skills\<close>

lemma fmul_mono: "a \<le> b \<Longrightarrow> 0 \<le> c \<Longrightarrow> fmul a c \<le> fmul b c"
  unfolding fmul_def by (intro fl_mono mult_right_mono)

lemma fadd_mono: "a \<le> b \<Longrightarrow> fadd a c \<le> fadd b c"
  unfolding fadd_def by (intro fl_mono add_right_mono)

lemma weighted_mono: "a \<le> b \<Longrightarrow> weighted a k m v c \<le> weighted b k m v c"
  unfolding weighted_def by (intro fadd_mono fmul_mono) simp_all

lemma fdiv_mono: "m \<le> m' \<Longrightarrow> fdiv (of_nat m) (of_nat n) \<le> fdiv (of_nat m') (of_nat n)"
  unfolding fdiv_def by (intro fl_mono divide_right_mono) simp_all

lemma length_filter_insert:
  "length (filter P (xs @ ys)) \<le> length (filter P (xs @ s # ys))"
  "P s \<Longrightarrow> length (filter P (xs @ s # ys)) = Suc (length (filter P (xs @ ys)))"
  by simp_all

text \<open>
  Claim C4.  Hold the target fixed, with at least one target skill.  Extend the skills of a
  profile, at any place of the list, by one skill that is a target skill and equals no skill
  of the profile, case-insensitively, and change nothing else: there is one more matching
  skill and the score does not decrease.
\<close>

theorem score_monotone_in_skills:
  assumes "jobSkills_of (jobText_of t d r) \<noteq> []"
    and "list_ex (\<lambda>js. toLowerCase js = toLowerCase s) (jobSkills_of (jobText_of t d r))"
    and "\<not> list_ex (\<lambda>rs. toLowerCase rs = toLowerCase s) (skills resume)"
    and "skills resume = xs @ ys"
  shows "length (matchingSkills_of (resume\<lparr>skills := xs @ s # ys\<rparr>) (jobText_of t d r))
           = Suc (length (matchingSkills_of resume (jobText_of t d r)))
    \<and> resumeScore (analyzeResumeForJob resume t d r)
         \<le> resumeScore (analyzeResumeForJob (resume\<lparr>skills := xs @ s # ys\<rparr>) t d r)"
proof -
  define resume' where "resume' = resume\<lparr>skills := xs @ s # ys\<rparr>"
  define jt where "jt = jobText_of t d r"
  have len: "length (matchingSkills_of resume' jt) = Suc (length (matchingSkills_of resume jt))"
    unfolding matchingSkills_of_def resume'_def assms(4) jt_def
    using assms(2) by (simp add: length_filter_insert(2))
  have same: "keywordMatchRatio_of resume' jt = keywordMatchRatio_of resume jt"
    "hasActionVerbs_of resume' = hasActionVerbs_of resume"
    "metrics resume' = metrics resume" "certifications resume' = certifications resume"
    by (simp_all add: resume'_def keywordMatchRatio_of_def matchingKeywords_of_def
          hasActionVerbs_of_def)
  have "fdiv (of_nat (length (matchingSkills_of resume jt))) (of_nat (length (jobSkills_of jt)))
          \<le> fdiv (of_nat (Suc (length (matchingSkills_of resume jt))))
               (of_nat (length (jobSkills_of jt)))"
    by (rule fdiv_mono) simp
  then have "skillMatchRatio_of resume jt \<le> skillMatchRatio_of resume' jt"
    unfolding skillMatchRatio_of_def len
    by (cases "0 < length (jobSkills_of jt)") (simp_all only: if_True if_False order_refl)
  then have "weighted (skillMatchRatio_of resume jt) (keywordMatchRatio_of resume jt)
                (length (metrics resume) > 0) (hasActionVerbs_of resume)
                (length (certifications resume) > 0)
           \<le> weighted (skillMatchRatio_of resume' jt) (keywordMatchRatio_of resume jt)
                (length (metrics resume) > 0) (hasActionVerbs_of resume)
                (length (certifications resume) > 0)"
    by (rule weighted_mono)
  then have "resumeScore (analyzeResumeForJob resume t d r)
               \<le> resumeScore (analyzeResumeForJob resume' t d r)"
    unfolding analyzeResumeForJob_resumeScore same jt_def[symmetric]
    by (intro max.mono min.mono Math_round_mono order_refl)
  with len show ?thesis unfolding resume'_def jt_def by simp
qed

section \<open>The score formula\<close>









section \<open>A worked example\<close>

text \<open>
  The resume text \<^verbatim>\<open>Led a python team, cut costs 50%\<close> against the job
  \<^verbatim>\<open>Senior Backend Engineer\<close>, \<^verbatim>\<open>We need a team lead\<close>, with the requirements
  \<^verbatim>\<open>python\<close>, \<^verbatim>\<open>docker\<close> and \<^verbatim>\<open>kubernetes\<close>: one of three skills and one of five keywords
  match, there is a metric and an action verb, and the score is 44.  With \<^verbatim>\<open>docker\<close> added
  to the skills it is 58.
\<close>

lemma ex2_jobText:
  "jobText_of ''Senior Backend Engineer'' ''We need a team lead''
      [''python'', ''docker'', ''kubernetes'']
     = ''senior backend engineer we need a team lead python docker kubernetes''"
  by code_simp

lemma ex2_jobSkills:
  "jobSkills_of ''senior backend engineer we need a team lead python docker kubernetes''
     = [''python'', ''docker'', ''kubernetes'']"
  by code_simp


lemma ex2_resume:
  "parseResumeText ''Led a python team, cut costs 50%'' =
     \<lparr>rawText = ''Led a python team, cut costs 50%'', skills = [''python''],
      experience = [], education = [], certifications = [],
      keywords_field = [''python'', ''led''], metrics = [''50%'']\<rparr>"
  by code_simp






theorem score_monotone_in_skills_witness:
  "length (matchingSkills_of
      ((parseResumeText ''Led a python team, cut costs 50%'')
         \<lparr>skills := [''python''] @ ''docker'' # []\<rparr>)
      (jobText_of ''Senior Backend Engineer'' ''We need a team lead''
         [''python'', ''docker'', ''kubernetes'']))
     = Suc (length (matchingSkills_of (parseResumeText ''Led a python team, cut costs 50%'')
         (jobText_of ''Senior Backend Engineer'' ''We need a team lead''
            [''python'', ''docker'', ''kubernetes''])))
   \<and> resumeScore (analyzeResumeForJob (parseResumeText ''Led a python team, cut costs 50%'')
         ''Senior Backend Engineer'' ''We need a team lead''
         [''python'', ''docker'', ''kubernetes''])
     \<le> resumeScore (analyzeResumeForJob
         ((parseResumeText ''Led a python team, cut costs 50%'')
            \<lparr>skills := [''python''] @ ''docker'' # []\<rparr>)
         ''Senior Backend Engineer'' ''We need a team lead''
         [''python'', ''docker'', ''kubernetes''])"
proof (rule score_monotone_in_skills)
  show "jobSkills_of (jobText_of ''Senior Backend Engineer'' ''We need a team lead''
          [''python'', ''docker'', ''kubernetes'']) \<noteq> []"
    unfolding ex2_jobText ex2_jobSkills by simp
  show "list_ex (\<lambda>js. toLowerCase js = toLowerCase ''docker'')
          (jobSkills_of (jobText_of ''Senior Backend Engineer'' ''We need a team lead''
             [''python'', ''docker'', ''kubernetes'']))"
    unfolding ex2_jobText ex2_jobSkills by code_simp
  show "\<not> list_ex (\<lambda>rs. toLowerCase rs = toLowerCase ''docker'')
          (skills (parseResumeText ''Led a python team, cut costs 50%''))"
    unfolding ex2_resume ParsedResume.select_convs by code_simp
  show "skills (parseResumeText ''Led a python team, cut costs 50%'') = [''python''] @ []"
    unfolding ex2_resume ParsedResume.select_convs by simp
qed

section \<open>The double arithmetic is visible\<close>

text \<open>
  Why the numbers are modelled as binary64 values and not as exact fractions: at a tie the
  two differ.  With 23 of 40 keywords matched, the exact percentage is 57.5 and rounds to
  58, but the source computes \<^verbatim>\<open>23 / 40 * 100\<close> as 57.49999999999999 and returns 57.  With 2
  of 7 skills and 15 of 28 keywords matched and no other signal, the exact weighted sum is
  27.5, and the source returns 27.
\<close>

lemma double_rounding_visible:
  "Math_round (fmul (fdiv 23 40) 100) = 57"
  "\<lfloor>(23 / 40 * 100 + 1 / 2 :: rat)\<rfloor> = 58"
  "Math_round (weighted (fdiv 2 7) (fdiv 15 28) False False False) = 27"
  "\<lfloor>(2 / 7 * 40 + 15 / 28 * 30 + 1 / 2 :: rat)\<rfloor> = 28"
  by code_simp+

end
